theory Spec2Isabelle
  imports Complex_Main "HOL-Library.Multiset"
begin

section \<open>CityTwin: the evaluation core of \<open>app1.py\<close>\<close>

text \<open>
  The development embeds the pure core of \<open>app1.py\<close>: the great-circle distance
  \<open>haversine_km\<close>, the heuristic \<open>evaluate_location\<close>, the aggregation
  \<open>analyze_perimeter\<close> and the three registry operations \<open>add_object\<close>,
  \<open>delete_selected\<close> and \<open>move_selected\<close>.

  Conventions of the embedding.
  \<^item> A Python \<open>float\<close> is a \<open>real\<close>: arithmetic is exact, there is no rounding, no
    infinity and no NaN.
  \<^item> The six category names of \<open>PALETTE\<close> are Cyrillic string literals; they are the six
    nullary constructors of \<open>category\<close>, and any other string \<open>s\<close> is \<open>Other s\<close>.
  \<^item> The fixed user-facing statements are Cyrillic string literals, all different; each is
    one constructor of \<open>statement\<close>, documented with the source line that appends it.
  \<^item> \<open>st.session_state\<close> is a record that every registry operation takes and returns.
  \<^item> \<open>new_id\<close> draws a random identifier; \<open>add_object\<close> takes the drawn identifier as
    an argument.
\<close>

subsection \<open>Data model\<close>

datatype category =
    Housing    \<comment> \<open>residential complex, first entry of \<open>PALETTE\<close>\<close>
  | School
  | Park
  | Sports     \<comment> \<open>sports complex\<close>
  | Industry   \<comment> \<open>industrial object\<close>
  | Bridge
  | Other string

record CityObject =
  obj_id :: string
  obj_type :: category
  lat :: real
  lon :: real
  params :: "string \<rightharpoonup> real"

datatype statement =
    FirstPoint             \<comment> \<open>line 135, plus: first point, a base for the district\<close>
  | HomeNoSchools          \<comment> \<open>line 140, minus: no schools nearby\<close>
  | HomeSchoolNear         \<comment> \<open>line 142, plus: school relatively near\<close>
  | HomeSchoolFar          \<comment> \<open>line 144, minus: school far away\<close>
  | HomeParkNear           \<comment> \<open>line 147, plus: park nearby\<close>
  | HomeNoPark             \<comment> \<open>line 149, minus: no park nearby, add a green zone\<close>
  | HomeIndustryClose      \<comment> \<open>line 152, minus: too close to the industrial zone\<close>
  | HomeIndustryFar        \<comment> \<open>line 154, plus: far enough from the industrial zone\<close>
  | SchoolNoHousing        \<comment> \<open>line 158, minus: no housing nearby\<close>
  | SchoolHousingNear      \<comment> \<open>line 160, plus: housing nearby\<close>
  | SchoolHousingFar       \<comment> \<open>line 162, minus: housing far away\<close>
  | SchoolIndustryClose    \<comment> \<open>line 165, minus: close to the industrial zone\<close>
  | SchoolIndustryFar      \<comment> \<open>line 167, plus: away from the industrial zone\<close>
  | ParkHousingNear        \<comment> \<open>line 171, plus: housing nearby, maximal benefit\<close>
  | ParkHousingFar         \<comment> \<open>line 173, plus: improves the district, stronger near housing\<close>
  | ParkCompensates        \<comment> \<open>line 176, plus: partly compensates the pollution\<close>
  | ParkNoiseRemains       \<comment> \<open>line 177, minus: noise and emissions may still be felt\<close>
  | ParkCleanZone          \<comment> \<open>line 179, plus: clean zone\<close>
  | IndustryHousingClose   \<comment> \<open>line 183, minus: close to housing\<close>
  | IndustryHousingFar     \<comment> \<open>line 185, plus: far from housing\<close>
  | IndustrySchoolClose    \<comment> \<open>line 188, minus: close to a school\<close>
  | IndustrySchoolFar      \<comment> \<open>line 190, plus: far from schools\<close>
  | IndustryJobs           \<comment> \<open>line 192, plus: creates jobs and economic activity\<close>
  | IndustryAirQuality     \<comment> \<open>line 193, minus: worsens the air quality around\<close>
  | SportsHousingNear      \<comment> \<open>line 197, plus: housing nearby\<close>
  | SportsHousingFar       \<comment> \<open>line 199, minus: far from housing\<close>
  | SportsParkNear         \<comment> \<open>line 202, plus: park nearby\<close>
  | SportsSuggestPark      \<comment> \<open>line 204, plus: could be complemented by a park\<close>
  | BridgeConnectivity     \<comment> \<open>line 207, plus: improves connectivity\<close>
  | BridgeMaybeWeaker      \<comment> \<open>line 208, minus: weaker effect without a route gap\<close>
  | LooksAcceptable        \<comment> \<open>line 211, plus: the generic fallback\<close>

subsection \<open>Geo utility\<close>

definition radians :: "real \<Rightarrow> real" where
  "radians x = x * pi / 180"

definition haversine_km :: "real \<Rightarrow> real \<Rightarrow> real \<Rightarrow> real \<Rightarrow> real" where
  "haversine_km lat1 lon1 lat2 lon2 =
     (let R = 6371;
          p1 = radians lat1;
          p2 = radians lat2;
          dphi = radians (lat2 - lat1);
          dl = radians (lon2 - lon1);
          a = (sin (dphi / 2))\<^sup>2 + cos p1 * cos p2 * (sin (dl / 2))\<^sup>2
      in 2 * R * arcsin (sqrt a))"

text \<open>The argument \<open>a\<close> that \<open>haversine_km\<close> hands to \<open>math.sqrt\<close> and then to
  \<open>math.asin\<close>. Both raise \<open>ValueError\<close> outside their domains; lemma
  \<open>hav_arg_range\<close> below shows that in exact arithmetic \<open>a\<close> lies between 0 and 1, so
  neither raises and \<open>haversine_km\<close> is a total function.\<close>

definition hav_arg :: "real \<Rightarrow> real \<Rightarrow> real \<Rightarrow> real \<Rightarrow> real" where
  "hav_arg lat1 lon1 lat2 lon2 =
     (sin (radians (lat2 - lat1) / 2))\<^sup>2
       + cos (radians lat1) * cos (radians lat2) * (sin (radians (lon2 - lon1) / 2))\<^sup>2"

abbreviation dist_to :: "real \<Rightarrow> real \<Rightarrow> CityObject \<Rightarrow> real" where
  "dist_to la lo x \<equiv> haversine_km la lo (lat x) (lon x)"

subsection \<open>Evaluation engine\<close>

text \<open>Python's \<open>min\<close> over a non-empty sequence: keep the first, replace it by a
  strictly smaller later element.\<close>

definition py_min :: "real \<Rightarrow> real list \<Rightarrow> real" where
  "py_min x xs = fold (\<lambda>y m. if y < m then y else m) xs x"

definition nearest :: "real \<Rightarrow> real \<Rightarrow> CityObject list \<Rightarrow> category \<Rightarrow> real option" where
  "nearest la lo objs t =
     (case filter (\<lambda>x. obj_type x = t) objs of
        [] \<Rightarrow> None
      | c # cs \<Rightarrow> Some (py_min (dist_to la lo c) (map (dist_to la lo) cs)))"

text \<open>\<open>is_within d k\<close> is the source's test \<open>d is not None and d <= k\<close>.\<close>

definition is_within :: "real option \<Rightarrow> real \<Rightarrow> bool" where
  "is_within d k = (case d of None \<Rightarrow> False | Some x \<Rightarrow> x \<le> k)"

type_synonym verdict = "statement list \<times> statement list"

definition add_plus :: "statement \<Rightarrow> verdict \<Rightarrow> verdict" where
  "add_plus s v = (fst v @ [s], snd v)"

definition add_minus :: "statement \<Rightarrow> verdict \<Rightarrow> verdict" where
  "add_minus s v = (fst v, snd v @ [s])"

definition rules_housing :: "real option \<Rightarrow> real option \<Rightarrow> real option \<Rightarrow> verdict \<Rightarrow> verdict" where
  "rules_housing near_school near_park near_ind v0 =
     (let v1 = (case near_school of
                  None \<Rightarrow> add_minus HomeNoSchools v0
                | Some d \<Rightarrow> if d \<le> 1.5 then add_plus HomeSchoolNear v0
                            else add_minus HomeSchoolFar v0);
          v2 = (if is_within near_park 1.2 then add_plus HomeParkNear v1
                else add_minus HomeNoPark v1);
          v3 = (if is_within near_ind 2.0 then add_minus HomeIndustryClose v2
                else add_plus HomeIndustryFar v2)
      in v3)"

definition rules_school :: "real option \<Rightarrow> real option \<Rightarrow> verdict \<Rightarrow> verdict" where
  "rules_school near_home near_ind v0 =
     (let v1 = (case near_home of
                  None \<Rightarrow> add_minus SchoolNoHousing v0
                | Some d \<Rightarrow> if d \<le> 1.5 then add_plus SchoolHousingNear v0
                            else add_minus SchoolHousingFar v0);
          v2 = (if is_within near_ind 2.5 then add_minus SchoolIndustryClose v1
                else add_plus SchoolIndustryFar v1)
      in v2)"

definition rules_park :: "real option \<Rightarrow> real option \<Rightarrow> verdict \<Rightarrow> verdict" where
  "rules_park near_home near_ind v0 =
     (let v1 = (if is_within near_home 1.5 then add_plus ParkHousingNear v0
                else add_plus ParkHousingFar v0);
          v2 = (if is_within near_ind 2.0
                then add_minus ParkNoiseRemains (add_plus ParkCompensates v1)
                else add_plus ParkCleanZone v1)
      in v2)"

definition rules_industry :: "real option \<Rightarrow> real option \<Rightarrow> verdict \<Rightarrow> verdict" where
  "rules_industry near_home near_school v0 =
     (let v1 = (if is_within near_home 3.0 then add_minus IndustryHousingClose v0
                else add_plus IndustryHousingFar v0);
          v2 = (if is_within near_school 3.5 then add_minus IndustrySchoolClose v1
                else add_plus IndustrySchoolFar v1);
          v3 = add_plus IndustryJobs v2;
          v4 = add_minus IndustryAirQuality v3
      in v4)"

definition rules_sports :: "real option \<Rightarrow> real option \<Rightarrow> verdict \<Rightarrow> verdict" where
  "rules_sports near_home near_park v0 =
     (let v1 = (if is_within near_home 2.0 then add_plus SportsHousingNear v0
                else add_minus SportsHousingFar v0);
          v2 = (if is_within near_park 1.5 then add_plus SportsParkNear v1
                else add_plus SportsSuggestPark v1)
      in v2)"

definition rules_bridge :: "verdict \<Rightarrow> verdict" where
  "rules_bridge v0 = add_minus BridgeMaybeWeaker (add_plus BridgeConnectivity v0)"

definition evaluate_location ::
  "category \<Rightarrow> real \<Rightarrow> real \<Rightarrow> CityObject list \<Rightarrow> verdict" where
  "evaluate_location t la lo objs =
     (let near_home = nearest la lo objs Housing;
          near_school = nearest la lo objs School;
          near_park = nearest la lo objs Park;
          near_ind = nearest la lo objs Industry
      in if objs = [] then add_plus FirstPoint ([], [])
         else
           let v = (case t of
                      Housing \<Rightarrow> rules_housing near_school near_park near_ind ([], [])
                    | School \<Rightarrow> rules_school near_home near_ind ([], [])
                    | Park \<Rightarrow> rules_park near_home near_ind ([], [])
                    | Industry \<Rightarrow> rules_industry near_home near_school ([], [])
                    | Sports \<Rightarrow> rules_sports near_home near_park ([], [])
                    | Bridge \<Rightarrow> rules_bridge ([], [])
                    | Other s \<Rightarrow> ([], []))
           in if fst v = [] then add_plus LooksAcceptable v else v)"

subsection \<open>Perimeter analyzer\<close>

record perimeter =
  around :: "(CityObject \<times> real) list"
  counts :: "category \<rightharpoonup> nat"
  residents :: real
  school_capacity :: real
  school_gap :: real
  industry_emission :: real
  parks :: nat
  radius_km :: real

text \<open>The first loop of \<open>analyze_perimeter\<close> (lines 216 to 220).\<close>

fun collect_around :: "real \<Rightarrow> real \<Rightarrow> real \<Rightarrow> CityObject list \<Rightarrow> (CityObject \<times> real) list" where
  "collect_around la lo r [] = []"
| "collect_around la lo r (x # xs) =
     (let d = dist_to la lo x
      in if d \<le> r then (x, d) # collect_around la lo r xs
         else collect_around la lo r xs)"

text \<open>The second loop (lines 222 to 224): \<open>counts[t] = counts.get(t, 0) + 1\<close>.\<close>

definition get_count :: "(category \<rightharpoonup> nat) \<Rightarrow> category \<Rightarrow> nat" where
  "get_count c t = (case c t of None \<Rightarrow> 0 | Some n \<Rightarrow> n)"

fun count_types :: "(category \<rightharpoonup> nat) \<Rightarrow> (CityObject \<times> real) list \<Rightarrow> (category \<rightharpoonup> nat)" where
  "count_types c [] = c"
| "count_types c (p # ps) =
     count_types (c(obj_type (fst p) \<mapsto> get_count c (obj_type (fst p)) + 1)) ps"

text \<open>\<open>float(o.params.get(k, 0))\<close>.\<close>

definition param :: "CityObject \<Rightarrow> string \<Rightarrow> real" where
  "param x k = (case params x k of None \<Rightarrow> 0 | Some v \<Rightarrow> v)"

text \<open>Python's \<open>sum\<close>: start from 0 and add from the left.\<close>

definition py_sum :: "real list \<Rightarrow> real" where
  "py_sum xs = foldl (+) 0 xs"

definition analyze_perimeter :: "real \<Rightarrow> real \<Rightarrow> CityObject list \<Rightarrow> real \<Rightarrow> perimeter" where
  "analyze_perimeter la lo objs r =
     (let ar = collect_around la lo r objs;
          cn = count_types Map.empty ar;
          res = py_sum (map (\<lambda>p. param (fst p) ''residents'')
                          (filter (\<lambda>p. obj_type (fst p) = Housing) ar));
          cap = py_sum (map (\<lambda>p. param (fst p) ''capacity'')
                          (filter (\<lambda>p. obj_type (fst p) = School) ar));
          emi = py_sum (map (\<lambda>p. param (fst p) ''emission'' * (1.0 - param (fst p) ''filters_eff''))
                          (filter (\<lambda>p. obj_type (fst p) = Industry) ar));
          pk = get_count cn Park;
          school_need = res * 0.25;
          gap = school_need - cap
      in \<lparr> around = sort_key snd ar, counts = cn, residents = res, school_capacity = cap,
           school_gap = gap, industry_emission = emi, parks = pk, radius_km = r \<rparr>)"

text \<open>The call of line 433 passes \<open>ANALYSIS_RADIUS_KM\<close>, also the default of the argument.\<close>

definition ANALYSIS_RADIUS_KM :: real where
  "ANALYSIS_RADIUS_KM = 1.5"

subsection \<open>Registry\<close>

text \<open>The two fields of \<open>st.session_state\<close> the registry operations read and write;
  \<open>mode\<close>, \<open>palette_selected\<close> and \<open>last_click\<close> belong to the page.\<close>

record session_state =
  objects :: "CityObject list"
  selected_id :: "string option"

definition init_state :: session_state where
  "init_state = \<lparr> objects = [], selected_id = None \<rparr>"

definition DEFAULT_PARAMS :: "category \<Rightarrow> (string \<rightharpoonup> real)" where
  "DEFAULT_PARAMS t =
     (case t of
        Housing \<Rightarrow> [''residents'' \<mapsto> 1500]
      | School \<Rightarrow> [''capacity'' \<mapsto> 800]
      | Park \<Rightarrow> [''green_factor'' \<mapsto> 0.25]
      | Sports \<Rightarrow> [''visitors_per_day'' \<mapsto> 500]
      | Industry \<Rightarrow> [''emission'' \<mapsto> 120.0, ''filters_eff'' \<mapsto> 0.0]
      | Bridge \<Rightarrow> [''capacity_bonus'' \<mapsto> 200]
      | Other s \<Rightarrow> Map.empty)"

text \<open>\<open>nid\<close> is the value \<open>new_id()\<close> returned: ten hexadecimal digits of a fresh
  UUID.\<close>

definition add_object :: "string \<Rightarrow> category \<Rightarrow> real \<Rightarrow> real \<Rightarrow> session_state \<Rightarrow> session_state" where
  "add_object nid t la lo s =
     (let x = \<lparr> obj_id = nid, obj_type = t, lat = la, lon = lo, params = DEFAULT_PARAMS t \<rparr>
      in s\<lparr> objects := objects s @ [x], selected_id := Some (obj_id x) \<rparr>)"

text \<open>Python's \<open>not sid\<close>: true of \<open>None\<close> and of the empty string.\<close>

definition falsy :: "string option \<Rightarrow> bool" where
  "falsy sid = (case sid of None \<Rightarrow> True | Some i \<Rightarrow> i = [])"

definition delete_selected :: "session_state \<Rightarrow> bool \<times> session_state" where
  "delete_selected s =
     (let sid = selected_id s
      in if falsy sid then (False, s)
         else
           let before = length (objects s);
               objs = filter (\<lambda>x. Some (obj_id x) \<noteq> sid) (objects s);
               after = length objs;
               sel = (case objs of [] \<Rightarrow> None | x # xs \<Rightarrow> Some (obj_id x))
           in (after < before, s\<lparr> objects := objs, selected_id := sel \<rparr>))"

text \<open>The loop of \<open>move_selected\<close>: the first object with the identifier is moved and
  the loop returns \<open>True\<close>; falling off the end returns \<open>False\<close>.\<close>

fun move_first ::
  "string option \<Rightarrow> real \<Rightarrow> real \<Rightarrow> CityObject list \<Rightarrow> bool \<times> CityObject list" where
  "move_first sid la lo [] = (False, [])"
| "move_first sid la lo (x # xs) =
     (if Some (obj_id x) = sid then (True, x\<lparr> lat := la, lon := lo \<rparr> # xs)
      else (fst (move_first sid la lo xs), x # snd (move_first sid la lo xs)))"

definition move_selected :: "real \<Rightarrow> real \<Rightarrow> session_state \<Rightarrow> bool \<times> session_state" where
  "move_selected la lo s =
     (let sid = selected_id s
      in if falsy sid then (False, s)
         else (fst (move_first sid la lo (objects s)),
               s\<lparr> objects := snd (move_first sid la lo (objects s)) \<rparr>))"

definition get_selected_obj :: "session_state \<Rightarrow> CityObject option" where
  "get_selected_obj s = find (\<lambda>x. Some (obj_id x) = selected_id s) (objects s)"

subsection \<open>Invariants of the registry\<close>

definition ids :: "session_state \<Rightarrow> string list" where
  "ids s = map obj_id (objects s)"

text \<open>The selected identifier is unset or the identifier of an object of the sequence.
  That at most one identifier is selected is the type of \<open>selected_id\<close>.\<close>

definition selection_inv :: "session_state \<Rightarrow> bool" where
  "selection_inv s = (case selected_id s of None \<Rightarrow> True | Some sid \<Rightarrow> sid \<in> set (ids s))"

text \<open>The registry of the data model: identifiers are unique, none is the empty string
  (\<open>new_id\<close> returns ten characters), and the selection invariant holds.\<close>

definition registry_inv :: "session_state \<Rightarrow> bool" where
  "registry_inv s = (distinct (ids s) \<and> [] \<notin> set (ids s) \<and> selection_inv s)"

subsection \<open>Sample data\<close>

definition home1 :: CityObject where
  "home1 = \<lparr> obj_id = ''0a1b2c3d4e'', obj_type = Housing, lat = 50, lon = 83,
             params = DEFAULT_PARAMS Housing \<rparr>"

definition school1 :: CityObject where
  "school1 = \<lparr> obj_id = ''f9e8d7c6b5'', obj_type = School, lat = 50, lon = 83,
               params = DEFAULT_PARAMS School \<rparr>"

definition far1 :: CityObject where
  "far1 = \<lparr> obj_id = ''5566778899'', obj_type = Industry, lat = 0, lon = 180,
            params = DEFAULT_PARAMS Industry \<rparr>"

definition st0 :: session_state where
  "st0 = \<lparr> objects = [home1, school1], selected_id = None \<rparr>"

definition st2 :: session_state where
  "st2 = \<lparr> objects = [home1, school1], selected_id = Some ''0a1b2c3d4e'' \<rparr>"

section \<open>Properties\<close>

subsection \<open>Great-circle distance\<close>

lemma radians_diff: "radians (x - y) = radians x - radians y"
  by (simp add: radians_def diff_divide_distrib left_diff_distrib)

lemma cos_cos_half:
  "cos p * cos q = (cos ((p + q) / 2))\<^sup>2 - (sin ((q - p) / 2))\<^sup>2" for p q :: real
proof -
  have 1: "cos (p + q) = 2 * (cos ((p + q) / 2))\<^sup>2 - 1"
  proof -
    have "p + q = 2 * ((p + q) / 2)" by simp
    then show ?thesis using cos_double_cos [of "(p + q) / 2"] by (simp only:)
  qed
  have 2: "cos (q - p) = 1 - 2 * (sin ((q - p) / 2))\<^sup>2"
  proof -
    have "q - p = 2 * ((q - p) / 2)" by simp
    then show ?thesis using cos_double_sin [of "(q - p) / 2"] by (simp only:)
  qed
  have "cos (p + q) + cos (q - p) = 2 * (cos p * cos q)"
    by (simp add: cos_add cos_diff)
  with 1 2 show ?thesis by simp
qed

text \<open>The argument of the square root is a convex combination of two squares of a sine
  and a cosine, hence in the unit interval.\<close>

lemma hav_arg_range: "0 \<le> hav_arg lat1 lon1 lat2 lon2 \<and> hav_arg lat1 lon1 lat2 lon2 \<le> 1"
proof -
  define u where "u = (sin ((radians lat2 - radians lat1) / 2))\<^sup>2"
  define v where "v = (cos ((radians lat1 + radians lat2) / 2))\<^sup>2"
  define w where "w = (sin (radians (lon2 - lon1) / 2))\<^sup>2"
  have u: "0 \<le> u" "u \<le> 1" and v: "0 \<le> v" "v \<le> 1" and w: "0 \<le> w" "w \<le> 1"
    by (simp_all add: u_def v_def w_def abs_square_le_1)
  have "hav_arg lat1 lon1 lat2 lon2 = u + (v - u) * w"
    by (simp add: hav_arg_def radians_diff cos_cos_half u_def v_def w_def)
  also have "\<dots> = u * (1 - w) + v * w" by (simp add: algebra_simps)
  finally have e: "hav_arg lat1 lon1 lat2 lon2 = u * (1 - w) + v * w" .
  have "0 \<le> u * (1 - w) + v * w" using u v w by simp
  moreover have "u * (1 - w) + v * w \<le> 1 * (1 - w) + 1 * w"
    using u v w by (intro add_mono mult_right_mono) simp_all
  ultimately show ?thesis using e by simp
qed

lemma haversine_km_arg:
  "haversine_km lat1 lon1 lat2 lon2 = 2 * 6371 * arcsin (sqrt (hav_arg lat1 lon1 lat2 lon2))"
  by (simp add: haversine_km_def hav_arg_def Let_def)

lemma haversine_km_nonneg: "0 \<le> haversine_km lat1 lon1 lat2 lon2"
proof -
  have "0 \<le> sqrt (hav_arg lat1 lon1 lat2 lon2)" "sqrt (hav_arg lat1 lon1 lat2 lon2) \<le> 1"
    using hav_arg_range [of lat1 lon1 lat2 lon2] by (simp_all add: real_sqrt_le_1_iff)
  then have "0 \<le> arcsin (sqrt (hav_arg lat1 lon1 lat2 lon2))"
    using arcsin_le_arcsin [of 0 "sqrt (hav_arg lat1 lon1 lat2 lon2)"] by simp
  then show ?thesis by (simp add: haversine_km_arg)
qed

lemma haversine_km_same: "haversine_km la lo la lo = 0"
  by (simp add: haversine_km_def radians_def)

lemma sin_half_radians_swap:
  "(sin (radians (y - x) / 2))\<^sup>2 = (sin (radians (x - y) / 2))\<^sup>2"
proof -
  have "radians (y - x) = - radians (x - y)"
    by (simp add: radians_diff)
  then have "radians (y - x) / 2 = - (radians (x - y) / 2)"
    by (simp only: minus_divide_left)
  then have "sin (radians (y - x) / 2) = - sin (radians (x - y) / 2)"
    by (simp only: sin_minus)
  then show ?thesis by simp
qed

lemma haversine_km_commute: "haversine_km a b c d = haversine_km c d a b"
  by (simp add: haversine_km_def sin_half_radians_swap [of c a] sin_half_radians_swap [of d b]
      mult.commute)

text \<open>
  Claim C9. The great-circle distance from a coordinate to itself is 0, and the distance
  is symmetric in its two coordinates.
\<close>

theorem haversine_km_zero_and_symmetric:
  "haversine_km la lo la lo = 0
   \<and> haversine_km lat1 lon1 lat2 lon2 = haversine_km lat2 lon2 lat1 lon1"
  using haversine_km_same [of la lo] haversine_km_commute [of lat1 lon1 lat2 lon2] by simp

subsection \<open>Evaluation\<close>

text \<open>
  Claim C2. For every category and every coordinate, \<open>evaluate_location\<close> called with an
  empty list of other objects returns exactly one supporting statement, the fixed
  first-point message, and an empty concerning list.
\<close>

theorem evaluate_location_empty:
  "evaluate_location t la lo [] = ([FirstPoint], [])"
  by (simp add: evaluate_location_def add_plus_def)

text \<open>
  Claim C1, as amended. For category industry, any coordinate and any non-empty list of
  other objects, the supporting list contains the fixed jobs statement and the concerning
  list contains the fixed air-quality statement, whatever the neighbours are.
\<close>

theorem industry_fixed_statements:
  assumes "objs \<noteq> []"
  shows "IndustryJobs \<in> set (fst (evaluate_location Industry la lo objs))
       \<and> IndustryAirQuality \<in> set (snd (evaluate_location Industry la lo objs))"
  using assms
  by (simp add: evaluate_location_def rules_industry_def add_plus_def add_minus_def Let_def)

theorem industry_fixed_statements_witness:
  "[home1] \<noteq> []
   \<and> IndustryJobs \<in> set (fst (evaluate_location Industry 50 83 [home1]))
   \<and> IndustryAirQuality \<in> set (snd (evaluate_location Industry 50 83 [home1]))"
  using industry_fixed_statements [of "[home1]" 50 83] by simp

text \<open>The claim as stated includes the empty list of other objects. There the
  short-circuit of lines 134 to 136 returns before any industry rule runs.\<close>

theorem industry_empty_counterexample:
  "\<not> (IndustryJobs \<in> set (fst (evaluate_location Industry 50 83 []))
      \<and> IndustryAirQuality \<in> set (snd (evaluate_location Industry 50 83 [])))"
  by (simp add: evaluate_location_def add_plus_def)

text \<open>The verdict for an industrial object placed on a housing block.\<close>

lemma evaluate_industry_on_home1:
  "evaluate_location Industry 50 83 [home1]
     = ([IndustrySchoolFar, IndustryJobs], [IndustryHousingClose, IndustryAirQuality])"
  by (simp add: evaluate_location_def rules_industry_def add_plus_def add_minus_def Let_def
      nearest_def home1_def is_within_def py_min_def haversine_km_same)


subsection \<open>Perimeter analysis\<close>

lemma collect_around_eq:
  "collect_around la lo r objs =
     map (\<lambda>x. (x, dist_to la lo x)) (filter (\<lambda>x. dist_to la lo x \<le> r) objs)"
  by (induction objs) (simp_all add: Let_def)

lemma py_sum_eq: "py_sum xs = sum_list xs"
proof -
  have "foldl (+) a xs = a + sum_list xs" for a :: real
    by (induction xs arbitrary: a) simp_all
  then show ?thesis by (simp add: py_sum_def)
qed

lemma count_types_eq:
  "get_count (count_types c ps) t
     = get_count c t + length (filter (\<lambda>p. obj_type (fst p) = t) ps)"
  by (induction ps arbitrary: c) (simp_all add: get_count_def)

lemma get_count_empty: "get_count Map.empty t = 0"
  by (simp add: get_count_def)

lemma around_set:
  "set (around (analyze_perimeter la lo objs r))
     = {(x, d). x \<in> set objs \<and> d = dist_to la lo x \<and> d \<le> r}"
  by (auto simp: analyze_perimeter_def Let_def collect_around_eq)

lemma counts_eq:
  "get_count (counts (analyze_perimeter la lo objs r)) t
     = length (filter (\<lambda>x. obj_type x = t \<and> dist_to la lo x \<le> r) objs)"
  by (simp add: analyze_perimeter_def Let_def count_types_eq get_count_empty collect_around_eq
      filter_map comp_def conj_commute)

lemma parks_eq:
  "parks (analyze_perimeter la lo objs r)
     = length (filter (\<lambda>x. obj_type x = Park \<and> dist_to la lo x \<le> r) objs)"
  by (simp add: analyze_perimeter_def Let_def count_types_eq get_count_empty collect_around_eq
      filter_map comp_def conj_commute)

lemma residents_eq:
  "residents (analyze_perimeter la lo objs r)
     = (\<Sum>x\<leftarrow>filter (\<lambda>x. obj_type x = Housing \<and> dist_to la lo x \<le> r) objs.
          param x ''residents'')"
  by (simp add: analyze_perimeter_def Let_def py_sum_eq collect_around_eq filter_map comp_def
      conj_commute)

lemma school_capacity_eq:
  "school_capacity (analyze_perimeter la lo objs r)
     = (\<Sum>x\<leftarrow>filter (\<lambda>x. obj_type x = School \<and> dist_to la lo x \<le> r) objs.
          param x ''capacity'')"
  by (simp add: analyze_perimeter_def Let_def py_sum_eq collect_around_eq filter_map comp_def
      conj_commute)

lemma industry_emission_eq:
  "industry_emission (analyze_perimeter la lo objs r)
     = (\<Sum>x\<leftarrow>filter (\<lambda>x. obj_type x = Industry \<and> dist_to la lo x \<le> r) objs.
          param x ''emission'' * (1 - param x ''filters_eff''))"
  by (simp add: analyze_perimeter_def Let_def py_sum_eq collect_around_eq filter_map comp_def
      conj_commute)

lemma school_gap_eq:
  "school_gap (analyze_perimeter la lo objs r)
     = 0.25 * residents (analyze_perimeter la lo objs r)
       - school_capacity (analyze_perimeter la lo objs r)"
  by (simp add: analyze_perimeter_def Let_def)

lemma dist_home1: "dist_to 50 83 home1 = 0"
  by (simp add: home1_def haversine_km_same)

lemma dist_school1: "dist_to 50 83 school1 = 0"
  by (simp add: school1_def haversine_km_same)

lemma home1_fields: "obj_type home1 = Housing" "param home1 ''residents'' = 1500"
  by (simp_all add: home1_def param_def DEFAULT_PARAMS_def)

lemma school1_fields: "obj_type school1 = School" "param school1 ''capacity'' = 800"
  by (simp_all add: school1_def param_def DEFAULT_PARAMS_def)

lemma dist_far1: "dist_to 0 0 far1 = 6371 * pi"
  by (simp add: far1_def haversine_km_def radians_def)

lemma far1_fields:
  "obj_type far1 = Industry" "param far1 ''emission'' = 120" "param far1 ''filters_eff'' = 0"
  by (simp_all add: far1_def param_def DEFAULT_PARAMS_def)

lemma perimeter_of_nothing:
  "industry_emission (analyze_perimeter la lo [] r) = 0"
  "get_count (counts (analyze_perimeter la lo [] r)) t = 0"
  by (simp_all add: analyze_perimeter_def py_sum_def get_count_def Let_def)

lemma far1_is_far: "1.5 < dist_to 0 0 far1"
proof -
  have "(1.5::real) < 6371 * 2" by simp
  also have "\<dots> \<le> 6371 * pi" using pi_ge_two by simp
  finally show ?thesis by (simp add: dist_far1)
qed


text \<open>
  Claim C5. For every center, object list and radius, the result of the perimeter
  analysis satisfies \<open>school_gap = 0.25 * residents - school_capacity\<close>, where
  \<open>residents\<close> is the sum of the \<open>residents\<close> parameter over the housing objects within
  the radius and \<open>school_capacity\<close> is the sum of the \<open>capacity\<close> parameter over the school
  objects within the radius.
\<close>

theorem school_gap_exact:
  "school_gap (analyze_perimeter la lo objs r)
     = 0.25 * residents (analyze_perimeter la lo objs r)
       - school_capacity (analyze_perimeter la lo objs r)
   \<and> residents (analyze_perimeter la lo objs r)
     = (\<Sum>x\<leftarrow>filter (\<lambda>x. obj_type x = Housing \<and> dist_to la lo x \<le> r) objs.
          param x ''residents'')
   \<and> school_capacity (analyze_perimeter la lo objs r)
     = (\<Sum>x\<leftarrow>filter (\<lambda>x. obj_type x = School \<and> dist_to la lo x \<le> r) objs.
          param x ''capacity'')"
  using school_gap_eq [of la lo objs r] residents_eq [of la lo objs r]
    school_capacity_eq [of la lo objs r]
  by (simp only: simp_thms)

text \<open>One housing block with 1500 residents and one school with 800 places, both at the
  center: the gap is \<open>0.25 * 1500 - 800\<close>.\<close>

theorem school_gap_exact_witness:
  "school_gap (analyze_perimeter 50 83 [home1, school1] 1.5) = - 425
   \<and> residents (analyze_perimeter 50 83 [home1, school1] 1.5) = 1500
   \<and> school_capacity (analyze_perimeter 50 83 [home1, school1] 1.5) = 800"
  using school_gap_exact [of 50 83 "[home1, school1]" "1.5"]
  by (simp add: dist_home1 dist_school1 home1_fields school1_fields)

text \<open>
  Claim C6. For every center, object list and radius, the \<open>around\<close> list holds exactly
  the objects whose great-circle distance to the center does not exceed the radius, each
  paired with its distance, and is sorted by ascending distance. An object farther than
  the radius is absent; an object at distance 0 is present (the radius being at least 0).
\<close>

theorem around_exact:
  "mset (around (analyze_perimeter la lo objs r))
     = mset (map (\<lambda>x. (x, dist_to la lo x)) (filter (\<lambda>x. dist_to la lo x \<le> r) objs))
   \<and> sorted (map snd (around (analyze_perimeter la lo objs r)))
   \<and> (\<forall>x\<in>set objs. r < dist_to la lo x
         \<longrightarrow> x \<notin> fst ` set (around (analyze_perimeter la lo objs r)))
   \<and> (\<forall>x\<in>set objs. 0 \<le> r \<and> dist_to la lo x = 0
         \<longrightarrow> (x, 0) \<in> set (around (analyze_perimeter la lo objs r)))"
proof -
  have 1: "mset (around (analyze_perimeter la lo objs r))
     = mset (map (\<lambda>x. (x, dist_to la lo x)) (filter (\<lambda>x. dist_to la lo x \<le> r) objs))"
    by (simp add: analyze_perimeter_def Let_def collect_around_eq)
  have 2: "sorted (map snd (around (analyze_perimeter la lo objs r)))"
    by (simp add: analyze_perimeter_def Let_def)
  have 3: "\<forall>x\<in>set objs. r < dist_to la lo x
             \<longrightarrow> x \<notin> fst ` set (around (analyze_perimeter la lo objs r))"
    by (auto simp: around_set)
  have 4: "\<forall>x\<in>set objs. 0 \<le> r \<and> dist_to la lo x = 0
             \<longrightarrow> (x, 0) \<in> set (around (analyze_perimeter la lo objs r))"
    by (simp add: around_set)
  from 1 2 3 4 show ?thesis by blast
qed

theorem around_exact_witness:
  "(0::real) \<le> 1.5 \<and> dist_to 50 83 home1 = 0
   \<and> (home1, 0) \<in> set (around (analyze_perimeter 50 83 [home1] 1.5))
   \<and> 1.5 < dist_to 0 0 far1
   \<and> far1 \<notin> fst ` set (around (analyze_perimeter 0 0 [far1] 1.5))"
  using around_exact [of 50 83 "[home1]" "1.5"] around_exact [of 0 0 "[far1]" "1.5"]
    far1_is_far
  by (simp add: dist_home1)

text \<open>
  Claim C10. The radius boundary is inclusive. An object whose distance to the center
  equals the radius is in the \<open>around\<close> list, and every aggregate counts it: against the
  analysis of the same objects without it, its category count is one more, and
  \<open>residents\<close>, \<open>school_capacity\<close>, \<open>school_gap\<close>, \<open>industry_emission\<close> and \<open>parks\<close>
  grow by its contribution.
\<close>

theorem radius_boundary_inclusive:
  assumes "dist_to la lo x = r"
  shows "(x, r) \<in> set (around (analyze_perimeter la lo (ys @ x # zs) r))
   \<and> get_count (counts (analyze_perimeter la lo (ys @ x # zs) r)) (obj_type x)
       = get_count (counts (analyze_perimeter la lo (ys @ zs) r)) (obj_type x) + 1
   \<and> residents (analyze_perimeter la lo (ys @ x # zs) r)
       = residents (analyze_perimeter la lo (ys @ zs) r)
         + (if obj_type x = Housing then param x ''residents'' else 0)
   \<and> school_capacity (analyze_perimeter la lo (ys @ x # zs) r)
       = school_capacity (analyze_perimeter la lo (ys @ zs) r)
         + (if obj_type x = School then param x ''capacity'' else 0)
   \<and> school_gap (analyze_perimeter la lo (ys @ x # zs) r)
       = school_gap (analyze_perimeter la lo (ys @ zs) r)
         + 0.25 * (if obj_type x = Housing then param x ''residents'' else 0)
         - (if obj_type x = School then param x ''capacity'' else 0)
   \<and> industry_emission (analyze_perimeter la lo (ys @ x # zs) r)
       = industry_emission (analyze_perimeter la lo (ys @ zs) r)
         + (if obj_type x = Industry
            then param x ''emission'' * (1 - param x ''filters_eff'') else 0)
   \<and> parks (analyze_perimeter la lo (ys @ x # zs) r)
       = parks (analyze_perimeter la lo (ys @ zs) r) + (if obj_type x = Park then 1 else 0)"
proof -
  have a: "(x, r) \<in> set (around (analyze_perimeter la lo (ys @ x # zs) r))"
    using assms by (simp add: around_set)
  have c: "get_count (counts (analyze_perimeter la lo (ys @ x # zs) r)) (obj_type x)
       = get_count (counts (analyze_perimeter la lo (ys @ zs) r)) (obj_type x) + 1"
    using assms by (simp add: counts_eq)
  have res: "residents (analyze_perimeter la lo (ys @ x # zs) r)
       = residents (analyze_perimeter la lo (ys @ zs) r)
         + (if obj_type x = Housing then param x ''residents'' else 0)"
    using assms by (simp add: residents_eq)
  have cap: "school_capacity (analyze_perimeter la lo (ys @ x # zs) r)
       = school_capacity (analyze_perimeter la lo (ys @ zs) r)
         + (if obj_type x = School then param x ''capacity'' else 0)"
    using assms by (simp add: school_capacity_eq)
  have gap: "school_gap (analyze_perimeter la lo (ys @ x # zs) r)
       = school_gap (analyze_perimeter la lo (ys @ zs) r)
         + 0.25 * (if obj_type x = Housing then param x ''residents'' else 0)
         - (if obj_type x = School then param x ''capacity'' else 0)"
    unfolding school_gap_eq res cap by (simp add: algebra_simps)
  have emi: "industry_emission (analyze_perimeter la lo (ys @ x # zs) r)
       = industry_emission (analyze_perimeter la lo (ys @ zs) r)
         + (if obj_type x = Industry
            then param x ''emission'' * (1 - param x ''filters_eff'') else 0)"
    using assms by (simp add: industry_emission_eq)
  have pk: "parks (analyze_perimeter la lo (ys @ x # zs) r)
       = parks (analyze_perimeter la lo (ys @ zs) r) + (if obj_type x = Park then 1 else 0)"
    using assms by (simp add: parks_eq)
  from a c res cap gap emi pk show ?thesis by blast
qed


theorem radius_boundary_inclusive_witness:
  "dist_to 0 0 far1 = 6371 * pi
   \<and> (far1, 6371 * pi) \<in> set (around (analyze_perimeter 0 0 [far1] (6371 * pi)))
   \<and> get_count (counts (analyze_perimeter 0 0 [far1] (6371 * pi))) Industry = 1
   \<and> industry_emission (analyze_perimeter 0 0 [far1] (6371 * pi)) = 120"
  using radius_boundary_inclusive [OF dist_far1, of "[]" "[]"]
  by (simp add: dist_far1 far1_fields perimeter_of_nothing)


subsection \<open>Registry operations\<close>

lemma move_first_ids: "map obj_id (snd (move_first sid la lo xs)) = map obj_id xs"
  by (induction xs) simp_all

lemma move_first_found:
  "fst (move_first (Some sid) la lo xs) \<longleftrightarrow> sid \<in> set (map obj_id xs)"
  by (induction xs) auto

lemma ids_move_selected: "ids (snd (move_selected la lo s)) = ids s"
  by (simp add: move_selected_def ids_def move_first_ids Let_def)

lemma selected_move_selected: "selected_id (snd (move_selected la lo s)) = selected_id s"
  by (simp add: move_selected_def Let_def)

lemma selection_inv_Some:
  "selection_inv s \<Longrightarrow> selected_id s = Some sid \<Longrightarrow> sid \<in> set (ids s)"
  by (simp add: selection_inv_def)

lemma falsy_Some: "falsy (Some sid) \<longleftrightarrow> sid = []"
  by (simp add: falsy_def)

lemma falsy_None: "falsy None"
  by (simp add: falsy_def)

lemma delete_selected_truthy:
  "selected_id s = Some sid \<Longrightarrow> sid \<noteq> [] \<Longrightarrow>
   delete_selected s =
     (length (filter (\<lambda>x. obj_id x \<noteq> sid) (objects s)) < length (objects s),
      s\<lparr> objects := filter (\<lambda>x. obj_id x \<noteq> sid) (objects s),
         selected_id := (case filter (\<lambda>x. obj_id x \<noteq> sid) (objects s) of
                           [] \<Rightarrow> None | x # xs \<Rightarrow> Some (obj_id x)) \<rparr>)"
  by (simp add: delete_selected_def Let_def falsy_Some)

lemma delete_selected_falsy:
  "falsy (selected_id s) \<Longrightarrow> delete_selected s = (False, s)"
  by (simp add: delete_selected_def Let_def)

lemma move_selected_truthy:
  "selected_id s = Some sid \<Longrightarrow> sid \<noteq> [] \<Longrightarrow>
   fst (move_selected la lo s) \<longleftrightarrow> sid \<in> set (ids s)"
  by (simp add: move_selected_def Let_def falsy_Some move_first_found ids_def)

lemma move_selected_falsy:
  "falsy (selected_id s) \<Longrightarrow> move_selected la lo s = (False, s)"
  by (simp add: move_selected_def Let_def)

text \<open>In a list with unique keys, filtering a present key out removes one element.\<close>

lemma filter_distinct_remove:
  assumes "distinct (map f xs)" and "k \<in> set (map f xs)"
  shows "\<exists>ys x zs. xs = ys @ x # zs \<and> f x = k \<and> k \<notin> f ` set ys
           \<and> filter (\<lambda>y. f y \<noteq> k) xs = ys @ zs"
proof -
  from assms(2) obtain x where x: "x \<in> set xs" "f x = k" by auto
  then obtain ys zs where s: "xs = ys @ x # zs" by (meson split_list)
  from assms(1) s have n: "f x \<notin> f ` set ys" "f x \<notin> f ` set zs" by auto
  then have "\<forall>y\<in>set ys. f y \<noteq> f x" "\<forall>y\<in>set zs. f y \<noteq> f x" by (metis imageI)+
  then have "\<forall>y\<in>set ys. f y \<noteq> k" "\<forall>y\<in>set zs. f y \<noteq> k" using x(2) by simp_all
  then have "filter (\<lambda>y. f y \<noteq> k) ys = ys" "filter (\<lambda>y. f y \<noteq> k) zs = zs"
    by (simp_all add: filter_id_conv)
  then have "filter (\<lambda>y. f y \<noteq> k) xs = ys @ zs" using s x(2) by simp
  with s x n(1) show ?thesis by blast
qed

lemma find_after_prefix:
  "\<forall>y\<in>set ys. \<not> P y \<Longrightarrow> P x \<Longrightarrow> find P (ys @ x # zs) = Some x"
  by (induction ys) simp_all

lemma registry_inv_st2: "registry_inv st2"
  by (simp add: registry_inv_def selection_inv_def ids_def st2_def home1_def school1_def)

lemma selected_st2: "selected_id st2 = Some ''0a1b2c3d4e''"
  by (simp add: st2_def)

lemma selected_st0: "selected_id st0 = None"
  by (simp add: st0_def)

lemma delete_st2:
  "delete_selected st2 = (True, \<lparr> objects = [school1], selected_id = Some ''f9e8d7c6b5'' \<rparr>)"
  by (simp add: delete_selected_def falsy_def st2_def home1_def school1_def Let_def)

text \<open>
  Claim C3. In every registry state (unique, non-empty identifiers; the selection names
  an object of the sequence) in which an object is selected, \<open>delete_selected\<close> returns
  true and removes exactly one object, the selected one; afterwards the selection is the
  first remaining object, or unset if no object remains.
\<close>

theorem delete_selected_removes_one:
  assumes "registry_inv s" and "selected_id s = Some sid"
  shows "fst (delete_selected s)
       \<and> (\<exists>ys x zs. objects s = ys @ x # zs \<and> get_selected_obj s = Some x
                    \<and> objects (snd (delete_selected s)) = ys @ zs)
       \<and> length (objects (snd (delete_selected s))) + 1 = length (objects s)
       \<and> selected_id (snd (delete_selected s))
           = (case objects (snd (delete_selected s)) of
                [] \<Rightarrow> None | y # ys \<Rightarrow> Some (obj_id y))"
proof -
  from assms have m: "sid \<in> set (ids s)"
    by (simp add: registry_inv_def selection_inv_Some)
  from assms(1) have d: "distinct (map obj_id (objects s))" and n: "[] \<notin> set (ids s)"
    by (simp_all add: registry_inv_def ids_def)
  from m n have ne: "sid \<noteq> []" by blast
  from m have m': "sid \<in> set (map obj_id (objects s))" by (simp add: ids_def)
  from filter_distinct_remove [OF d m'] obtain ys x zs where
    sp: "objects s = ys @ x # zs" "obj_id x = sid" "sid \<notin> obj_id ` set ys"
        "filter (\<lambda>y. obj_id y \<noteq> sid) (objects s) = ys @ zs" by blast
  from sp(3) have "\<forall>y\<in>set ys. \<not> Some (obj_id y) = Some sid" by auto
  then have g: "get_selected_obj s = Some x"
    using sp(1,2) assms(2) by (simp add: get_selected_obj_def find_after_prefix)
  have o: "objects (snd (delete_selected s)) = ys @ zs"
    using sp(4) by (simp add: delete_selected_truthy [OF assms(2) ne])
  have l: "length (objects (snd (delete_selected s))) + 1 = length (objects s)"
    using o sp(1) by simp
  have f: "fst (delete_selected s)"
    using sp(1,4) by (simp add: delete_selected_truthy [OF assms(2) ne])
  have sel: "selected_id (snd (delete_selected s))
           = (case objects (snd (delete_selected s)) of
                [] \<Rightarrow> None | y # ys \<Rightarrow> Some (obj_id y))"
    by (simp add: delete_selected_truthy [OF assms(2) ne])
  from f o l sel sp(1) g show ?thesis by blast
qed

theorem delete_selected_removes_one_witness:
  "registry_inv st2 \<and> selected_id st2 = Some ''0a1b2c3d4e''
   \<and> fst (delete_selected st2)
   \<and> length (objects (snd (delete_selected st2))) + 1 = length (objects st2)
   \<and> objects (snd (delete_selected st2)) = [school1]
   \<and> selected_id (snd (delete_selected st2)) = Some (obj_id school1)"
proof -
  from delete_selected_removes_one [OF registry_inv_st2 selected_st2]
  have "fst (delete_selected st2)"
    and "length (objects (snd (delete_selected st2))) + 1 = length (objects st2)"
    by blast+
  with registry_inv_st2 selected_st2 show ?thesis by (simp add: delete_st2 school1_def)
qed

text \<open>
  Claim C4. \<open>move_selected\<close> returns false if nothing is selected. In a registry state,
  where the selection names an object of the sequence and no identifier is empty, it
  returns true whenever a selection is set.
\<close>

theorem move_selected_result:
  "(selected_id s = None \<longrightarrow> \<not> fst (move_selected la lo s))
   \<and> (selection_inv s \<and> [] \<notin> set (ids s) \<and> selected_id s \<noteq> None
        \<longrightarrow> fst (move_selected la lo s))"
proof -
  have a: "\<not> fst (move_selected la lo s)" if "selected_id s = None"
    using that by (simp add: move_selected_falsy falsy_None)
  have b: "fst (move_selected la lo s)"
    if i: "selection_inv s" and n: "[] \<notin> set (ids s)" and "selected_id s \<noteq> None"
  proof -
    from that obtain sid where s: "selected_id s = Some sid" by blast
    with i have m: "sid \<in> set (ids s)" by (rule selection_inv_Some)
    with n have "sid \<noteq> []" by blast
    with s m show ?thesis by (simp add: move_selected_truthy)
  qed
  from a b show ?thesis by blast
qed

theorem move_selected_result_witness:
  "selection_inv st2 \<and> [] \<notin> set (ids st2) \<and> selected_id st2 \<noteq> None
   \<and> fst (move_selected 50 82 st2)
   \<and> selected_id st0 = None \<and> \<not> fst (move_selected 50 82 st0)"
proof -
  have h: "selection_inv st2 \<and> [] \<notin> set (ids st2) \<and> selected_id st2 \<noteq> None"
    by (simp add: selection_inv_def ids_def st2_def home1_def school1_def)
  from h selected_st0 move_selected_result [of st2 50 82] move_selected_result [of st0 50 82]
  show ?thesis by blast
qed

text \<open>What \<open>move_selected\<close> returns in any state, also one outside the invariant: true
  exactly when the selected identifier is non-empty and names an object.\<close>

lemma move_selected_fst:
  "fst (move_selected la lo s)
     \<longleftrightarrow> (\<exists>sid. selected_id s = Some sid \<and> sid \<noteq> [] \<and> sid \<in> set (ids s))"
proof (cases "selected_id s")
  case None
  then show ?thesis by (simp add: move_selected_falsy falsy_None)
next
  case (Some sid)
  show ?thesis
  proof (cases "sid = []")
    case True
    with Some show ?thesis by (simp add: move_selected_falsy falsy_Some)
  next
    case False
    with Some show ?thesis by (simp add: move_selected_truthy)
  qed
qed

text \<open>
  Claim C7. In every registry state in which nothing is selected, \<open>delete_selected\<close>
  returns false and leaves the object sequence and the selection unchanged.
\<close>

theorem delete_selected_nothing:
  "selected_id s = None \<Longrightarrow> delete_selected s = (False, s)"
  by (simp add: delete_selected_falsy falsy_None)

theorem delete_selected_nothing_witness:
  "selected_id st0 = None \<and> delete_selected st0 = (False, st0)
   \<and> objects (snd (delete_selected st0)) = [home1, school1]"
  using delete_selected_nothing [OF selected_st0] selected_st0 by (simp add: st0_def)

subsection \<open>The selection invariant\<close>

lemma selection_inv_add: "selection_inv (add_object nid t la lo s)"
  by (simp add: add_object_def selection_inv_def ids_def Let_def)

lemma selection_inv_after_delete:
  "selected_id s = Some sid \<Longrightarrow> sid \<noteq> [] \<Longrightarrow> selection_inv (snd (delete_selected s))"
  by (simp add: delete_selected_truthy selection_inv_def ids_def split: list.split)

lemma selection_inv_delete:
  assumes "selection_inv s" shows "selection_inv (snd (delete_selected s))"
proof (cases "falsy (selected_id s)")
  case True
  with assms show ?thesis by (simp add: delete_selected_falsy)
next
  case False
  then obtain sid where "selected_id s = Some sid" "sid \<noteq> []"
    by (auto simp: falsy_def split: option.splits)
  then show ?thesis by (rule selection_inv_after_delete)
qed

lemma selection_inv_move:
  "selection_inv s \<Longrightarrow> selection_inv (snd (move_selected la lo s))"
  by (simp add: selection_inv_def ids_move_selected selected_move_selected
      split: option.splits)

text \<open>
  Claim C8. The selection invariant (the selected identifier, when set, names an object of
  the sequence; the type of \<open>selected_id\<close> admits at most one) is preserved by
  \<open>add_object\<close>, \<open>delete_selected\<close> and \<open>move_selected\<close>.
\<close>

theorem selection_inv_preserved:
  assumes "selection_inv s"
  shows "selection_inv (add_object nid t la lo s)
       \<and> selection_inv (snd (delete_selected s))
       \<and> selection_inv (snd (move_selected la' lo' s))"
  using assms selection_inv_add [of nid t la lo s] selection_inv_delete [of s]
    selection_inv_move [of s la' lo']
  by blast

theorem selection_inv_preserved_witness:
  "selection_inv st2
   \<and> selection_inv (add_object ''1122334455'' Park 50 83 st2)
   \<and> selection_inv (snd (delete_selected st2))
   \<and> selection_inv (snd (move_selected 50 82 st2))"
proof -
  have h: "selection_inv st2"
    by (simp add: selection_inv_def ids_def st2_def home1_def school1_def)
  from h selection_inv_preserved [OF h, of "''1122334455''" Park 50 83 50 82]
  show ?thesis by simp
qed

text \<open>The full registry invariant holds initially and is kept by the three operations,
  \<open>add_object\<close> being given a fresh, non-empty identifier: every state the operations
  reach from \<open>init_state\<close> is a registry state.\<close>

lemma registry_inv_init: "registry_inv init_state"
  by (simp add: registry_inv_def selection_inv_def ids_def init_state_def)

lemma registry_inv_add:
  "registry_inv s \<Longrightarrow> nid \<noteq> [] \<Longrightarrow> nid \<notin> set (ids s)
     \<Longrightarrow> registry_inv (add_object nid t la lo s)"
  by (auto simp: registry_inv_def selection_inv_def ids_def add_object_def Let_def)

lemma ids_after_delete: "set (ids (snd (delete_selected s))) \<subseteq> set (ids s)"
  by (auto simp: delete_selected_def ids_def Let_def)

lemma distinct_after_delete: "distinct (ids s) \<Longrightarrow> distinct (ids (snd (delete_selected s)))"
  by (auto simp: delete_selected_def ids_def Let_def distinct_map_filter)

lemma registry_inv_delete:
  assumes "registry_inv s" shows "registry_inv (snd (delete_selected s))"
proof -
  from assms have "selection_inv s" by (simp add: registry_inv_def)
  then have "selection_inv (snd (delete_selected s))" by (rule selection_inv_delete)
  moreover from assms have "distinct (ids (snd (delete_selected s)))"
    by (simp add: registry_inv_def distinct_after_delete)
  moreover from assms ids_after_delete [of s] have "[] \<notin> set (ids (snd (delete_selected s)))"
    by (auto simp: registry_inv_def)
  ultimately show ?thesis by (simp add: registry_inv_def)
qed

lemma registry_inv_move: "registry_inv s \<Longrightarrow> registry_inv (snd (move_selected la lo s))"
  by (simp add: registry_inv_def selection_inv_move ids_move_selected)


end
